theory Spec2Isabelle
  imports Main "HOL-Library.Word"
begin

section \<open>The keyboard hook of Keylogger/src/Main.cpp\<close>

text \<open>
  The program installs a low-level keyboard hook. Windows calls \<open>procedure\<close> once per
  key event; the procedure keeps five \<open>static bool\<close> flags between calls, builds a string
  \<open>log\<close> for the event and writes it to the console. The model passes the five flags in and
  out as a record and returns \<open>log\<close> as the text of the call.
\<close>

subsection \<open>translate (Main.cpp, lines 28 to 51)\<close>

text \<open>
  The parameters keep their names. \<open>caps\<close> is assigned inside the function, and \<open>text\<close>
  is appended to step by step; each assignment is one \<open>let\<close> binding, in the order of the
  source. On \<open>bool\<close> operands the C++ expression \<open>shift ^ caps\<close> is true exactly when the two
  differ.
\<close>

definition translate ::
  "char \<Rightarrow> char \<Rightarrow> bool \<Rightarrow> bool \<Rightarrow> bool \<Rightarrow> bool \<Rightarrow> bool \<Rightarrow> string" where
  "translate primary secondary win shift caps ctrl alt =
     (let caps = (if win \<or> ctrl \<or> alt then False else caps);
          text = (if win \<or> ctrl \<or> alt then ''<'' else []);
          text = (if win then text @ ''WIN + '' else text);
          text = (if ctrl then text @ ''CTRL + '' else text);
          text = (if alt then text @ ''ALT + '' else text);
          text = (if shift \<noteq> caps then text @ [secondary] else text @ [primary]);
          text = (if win \<or> ctrl \<or> alt then text @ ''>'' else text)
      in text)"

subsection \<open>Constants of the Windows headers\<close>

text \<open>
  \<open>windows.h\<close> is not part of the repository. The hook code, the window messages and the
  virtual-key codes carry the values that the Windows SDK (\<open>winuser.h\<close>) gives them. A
  virtual-key code is a \<open>DWORD\<close>; a message identifier arrives in a \<open>WPARAM\<close>, which is
  64 bits wide on a 64-bit build. The procedure only compares these values with each other
  and with the numbers 48 to 57 and 65 to 90; as labels of one \<open>switch\<close> they are pairwise
  different.
\<close>

type_synonym DWORD = "32 word"
type_synonym WPARAM = "64 word"

definition HC_ACTION :: int where "HC_ACTION = 0"

definition WM_KEYDOWN :: WPARAM where "WM_KEYDOWN = 0x0100"
definition WM_KEYUP :: WPARAM where "WM_KEYUP = 0x0101"
definition WM_SYSKEYDOWN :: WPARAM where "WM_SYSKEYDOWN = 0x0104"
definition WM_SYSKEYUP :: WPARAM where "WM_SYSKEYUP = 0x0105"

definition VK_BACK :: DWORD where "VK_BACK = 0x08"
definition VK_TAB :: DWORD where "VK_TAB = 0x09"
definition VK_RETURN :: DWORD where "VK_RETURN = 0x0D"
definition VK_CAPITAL :: DWORD where "VK_CAPITAL = 0x14"
definition VK_ESCAPE :: DWORD where "VK_ESCAPE = 0x1B"
definition VK_SPACE :: DWORD where "VK_SPACE = 0x20"
definition VK_PRIOR :: DWORD where "VK_PRIOR = 0x21"
definition VK_NEXT :: DWORD where "VK_NEXT = 0x22"
definition VK_END :: DWORD where "VK_END = 0x23"
definition VK_HOME :: DWORD where "VK_HOME = 0x24"
definition VK_LEFT :: DWORD where "VK_LEFT = 0x25"
definition VK_UP :: DWORD where "VK_UP = 0x26"
definition VK_RIGHT :: DWORD where "VK_RIGHT = 0x27"
definition VK_DOWN :: DWORD where "VK_DOWN = 0x28"
definition VK_SNAPSHOT :: DWORD where "VK_SNAPSHOT = 0x2C"
definition VK_INSERT :: DWORD where "VK_INSERT = 0x2D"
definition VK_DELETE :: DWORD where "VK_DELETE = 0x2E"
definition VK_LWIN :: DWORD where "VK_LWIN = 0x5B"
definition VK_RWIN :: DWORD where "VK_RWIN = 0x5C"
definition VK_LSHIFT :: DWORD where "VK_LSHIFT = 0xA0"
definition VK_RSHIFT :: DWORD where "VK_RSHIFT = 0xA1"
definition VK_LCONTROL :: DWORD where "VK_LCONTROL = 0xA2"
definition VK_RCONTROL :: DWORD where "VK_RCONTROL = 0xA3"
definition VK_LMENU :: DWORD where "VK_LMENU = 0xA4"
definition VK_RMENU :: DWORD where "VK_RMENU = 0xA5"
definition VK_OEM_1 :: DWORD where "VK_OEM_1 = 0xBA"
definition VK_OEM_PLUS :: DWORD where "VK_OEM_PLUS = 0xBB"
definition VK_OEM_COMMA :: DWORD where "VK_OEM_COMMA = 0xBC"
definition VK_OEM_MINUS :: DWORD where "VK_OEM_MINUS = 0xBD"
definition VK_OEM_PERIOD :: DWORD where "VK_OEM_PERIOD = 0xBE"
definition VK_OEM_2 :: DWORD where "VK_OEM_2 = 0xBF"
definition VK_OEM_3 :: DWORD where "VK_OEM_3 = 0xC0"
definition VK_OEM_4 :: DWORD where "VK_OEM_4 = 0xDB"
definition VK_OEM_5 :: DWORD where "VK_OEM_5 = 0xDC"
definition VK_OEM_6 :: DWORD where "VK_OEM_6 = 0xDD"
definition VK_OEM_7 :: DWORD where "VK_OEM_7 = 0xDE"

subsection \<open>The static flags of procedure (Main.cpp, lines 67 to 71)\<close>

record modifiers =
  win :: bool
  shift :: bool
  caps :: bool
  ctrl :: bool
  alt :: bool

text \<open>Every flag is initialised to \<open>false\<close>.\<close>

definition initial_modifiers :: modifiers where
  "initial_modifiers = \<lparr>win = False, shift = False, caps = False, ctrl = False, alt = False\<rparr>"

subsection \<open>procedure (Main.cpp, lines 64 to 367)\<close>

text \<open>
  The inner \<open>switch\<close> of the \<open>WM_KEYDOWN\<close>/\<open>WM_SYSKEYDOWN\<close> branch (lines 81 to 337), one
  branch per \<open>case\<close> label in the order of the source. \<open>log\<close> is empty when the switch is
  entered, so each \<open>log.append\<close> yields the appended string. A code with no label falls
  through the switch: nothing is appended and no flag is written.
\<close>

definition procedure_keydown :: "modifiers \<Rightarrow> DWORD \<Rightarrow> modifiers \<times> string" where
  "procedure_keydown st vkCode =
     (if vkCode = VK_BACK then (st, ''<BACKSPACE>'')
      else if vkCode = VK_TAB then (st, ''<TAB>'')
      else if vkCode = VK_RETURN then (st, ''<RETURN>'' @ [CHR 0x0D, CHR 0x0A])
      else if vkCode = VK_CAPITAL then (st\<lparr>caps := \<not> caps st\<rparr>, [])
      else if vkCode = VK_ESCAPE then (st, ''<ESC>'')
      else if vkCode = VK_SPACE then (st, '' '')
      else if vkCode = VK_PRIOR then (st, ''<PGDN>'')
      else if vkCode = VK_NEXT then (st, ''<PGUP>'')
      else if vkCode = VK_END then (st, ''<END>'')
      else if vkCode = VK_HOME then (st, ''<HOME>'')
      else if vkCode = VK_LEFT then (st, ''<LEFT>'')
      else if vkCode = VK_UP then (st, ''<UP>'')
      else if vkCode = VK_RIGHT then (st, ''<RIGHT>'')
      else if vkCode = VK_DOWN then (st, ''<DOWN>'')
      else if vkCode = VK_SNAPSHOT then (st, ''<PRTSC>'')
      else if vkCode = VK_INSERT then (st, ''<INS>'')
      else if vkCode = VK_DELETE then (st, ''<DEL>'')
      else if vkCode = 48 then
        (st, translate (CHR ''0'') (CHR '')'') (win st) (shift st) False (ctrl st) (alt st))
      else if vkCode = 49 then
        (st, translate (CHR ''1'') (CHR ''!'') (win st) (shift st) False (ctrl st) (alt st))
      else if vkCode = 50 then
        (st, translate (CHR ''2'') (CHR ''@'') (win st) (shift st) False (ctrl st) (alt st))
      else if vkCode = 51 then
        (st, translate (CHR ''3'') (CHR ''#'') (win st) (shift st) False (ctrl st) (alt st))
      else if vkCode = 52 then
        (st, translate (CHR ''4'') (CHR ''$'') (win st) (shift st) False (ctrl st) (alt st))
      else if vkCode = 53 then
        (st, translate (CHR ''5'') (CHR ''%'') (win st) (shift st) False (ctrl st) (alt st))
      else if vkCode = 54 then
        (st, translate (CHR ''6'') (CHR ''^'') (win st) (shift st) False (ctrl st) (alt st))
      else if vkCode = 55 then
        (st, translate (CHR ''7'') (CHR ''&'') (win st) (shift st) False (ctrl st) (alt st))
      else if vkCode = 56 then
        (st, translate (CHR ''8'') (CHR ''*'') (win st) (shift st) False (ctrl st) (alt st))
      else if vkCode = 57 then
        (st, translate (CHR ''9'') (CHR ''('') (win st) (shift st) False (ctrl st) (alt st))
      else if vkCode = 65 then
        (st, translate (CHR ''a'') (CHR ''A'') (win st) (shift st) (caps st) (ctrl st) (alt st))
      else if vkCode = 66 then
        (st, translate (CHR ''b'') (CHR ''B'') (win st) (shift st) (caps st) (ctrl st) (alt st))
      else if vkCode = 67 then
        (st, translate (CHR ''c'') (CHR ''C'') (win st) (shift st) (caps st) (ctrl st) (alt st))
      else if vkCode = 68 then
        (st, translate (CHR ''d'') (CHR ''D'') (win st) (shift st) (caps st) (ctrl st) (alt st))
      else if vkCode = 69 then
        (st, translate (CHR ''e'') (CHR ''E'') (win st) (shift st) (caps st) (ctrl st) (alt st))
      else if vkCode = 70 then
        (st, translate (CHR ''f'') (CHR ''F'') (win st) (shift st) (caps st) (ctrl st) (alt st))
      else if vkCode = 71 then
        (st, translate (CHR ''g'') (CHR ''G'') (win st) (shift st) (caps st) (ctrl st) (alt st))
      else if vkCode = 72 then
        (st, translate (CHR ''h'') (CHR ''H'') (win st) (shift st) (caps st) (ctrl st) (alt st))
      else if vkCode = 73 then
        (st, translate (CHR ''i'') (CHR ''I'') (win st) (shift st) (caps st) (ctrl st) (alt st))
      else if vkCode = 74 then
        (st, translate (CHR ''j'') (CHR ''J'') (win st) (shift st) (caps st) (ctrl st) (alt st))
      else if vkCode = 75 then
        (st, translate (CHR ''k'') (CHR ''K'') (win st) (shift st) (caps st) (ctrl st) (alt st))
      else if vkCode = 76 then
        (st, translate (CHR ''l'') (CHR ''L'') (win st) (shift st) (caps st) (ctrl st) (alt st))
      else if vkCode = 77 then
        (st, translate (CHR ''m'') (CHR ''M'') (win st) (shift st) (caps st) (ctrl st) (alt st))
      else if vkCode = 78 then
        (st, translate (CHR ''n'') (CHR ''N'') (win st) (shift st) (caps st) (ctrl st) (alt st))
      else if vkCode = 79 then
        (st, translate (CHR ''o'') (CHR ''O'') (win st) (shift st) (caps st) (ctrl st) (alt st))
      else if vkCode = 80 then
        (st, translate (CHR ''p'') (CHR ''P'') (win st) (shift st) (caps st) (ctrl st) (alt st))
      else if vkCode = 81 then
        (st, translate (CHR ''q'') (CHR ''Q'') (win st) (shift st) (caps st) (ctrl st) (alt st))
      else if vkCode = 82 then
        (st, translate (CHR ''r'') (CHR ''R'') (win st) (shift st) (caps st) (ctrl st) (alt st))
      else if vkCode = 83 then
        (st, translate (CHR ''s'') (CHR ''S'') (win st) (shift st) (caps st) (ctrl st) (alt st))
      else if vkCode = 84 then
        (st, translate (CHR ''t'') (CHR ''T'') (win st) (shift st) (caps st) (ctrl st) (alt st))
      else if vkCode = 85 then
        (st, translate (CHR ''u'') (CHR ''U'') (win st) (shift st) (caps st) (ctrl st) (alt st))
      else if vkCode = 86 then
        (st, translate (CHR ''v'') (CHR ''V'') (win st) (shift st) (caps st) (ctrl st) (alt st))
      else if vkCode = 87 then
        (st, translate (CHR ''w'') (CHR ''W'') (win st) (shift st) (caps st) (ctrl st) (alt st))
      else if vkCode = 88 then
        (st, translate (CHR ''x'') (CHR ''X'') (win st) (shift st) (caps st) (ctrl st) (alt st))
      else if vkCode = 89 then
        (st, translate (CHR ''y'') (CHR ''Y'') (win st) (shift st) (caps st) (ctrl st) (alt st))
      else if vkCode = 90 then
        (st, translate (CHR ''z'') (CHR ''Z'') (win st) (shift st) (caps st) (ctrl st) (alt st))
      else if vkCode = VK_LWIN \<or> vkCode = VK_RWIN then (st\<lparr>win := True\<rparr>, [])
      else if vkCode = VK_LSHIFT \<or> vkCode = VK_RSHIFT then (st\<lparr>shift := True\<rparr>, [])
      else if vkCode = VK_LCONTROL \<or> vkCode = VK_RCONTROL then (st\<lparr>ctrl := True\<rparr>, [])
      else if vkCode = VK_LMENU \<or> vkCode = VK_RMENU then (st\<lparr>alt := True\<rparr>, [])
      else if vkCode = VK_OEM_1 then
        (st, translate (CHR '';'') (CHR '':'') (win st) (shift st) (caps st) (ctrl st) (alt st))
      else if vkCode = VK_OEM_PLUS then
        (st, translate (CHR ''='') (CHR ''+'') (win st) (shift st) (caps st) (ctrl st) (alt st))
      else if vkCode = VK_OEM_COMMA then
        (st, translate (CHR '','') (CHR ''<'') (win st) (shift st) (caps st) (ctrl st) (alt st))
      else if vkCode = VK_OEM_MINUS then
        (st, translate (CHR ''-'') (CHR ''_'') (win st) (shift st) (caps st) (ctrl st) (alt st))
      else if vkCode = VK_OEM_PERIOD then
        (st, translate (CHR ''.'') (CHR ''>'') (win st) (shift st) (caps st) (ctrl st) (alt st))
      else if vkCode = VK_OEM_2 then
        (st, translate (CHR ''/'') (CHR ''?'') (win st) (shift st) (caps st) (ctrl st) (alt st))
      else if vkCode = VK_OEM_3 then
        (st, translate (CHR 0x60) (CHR ''~'') (win st) (shift st) (caps st) (ctrl st) (alt st))
      else if vkCode = VK_OEM_4 then
        (st, translate (CHR ''['') (CHR ''{'') (win st) (shift st) (caps st) (ctrl st) (alt st))
      else if vkCode = VK_OEM_5 then
        (st, translate (CHR 0x5C) (CHR ''|'') (win st) (shift st) (caps st) (ctrl st) (alt st))
      else if vkCode = VK_OEM_6 then
        (st, translate (CHR '']'') (CHR ''}'') (win st) (shift st) (caps st) (ctrl st) (alt st))
      else if vkCode = VK_OEM_7 then
        (st, translate (CHR 0x27) (CHR 0x22) (win st) (shift st) (caps st) (ctrl st) (alt st))
      else (st, []))"

text \<open>The inner \<open>switch\<close> of the \<open>WM_KEYUP\<close>/\<open>WM_SYSKEYUP\<close> branch (lines 342 to 359).\<close>

definition procedure_keyup :: "modifiers \<Rightarrow> DWORD \<Rightarrow> modifiers \<times> string" where
  "procedure_keyup st vkCode =
     (if vkCode = VK_LWIN \<or> vkCode = VK_RWIN then (st\<lparr>win := False\<rparr>, [])
      else if vkCode = VK_LSHIFT \<or> vkCode = VK_RSHIFT then (st\<lparr>shift := False\<rparr>, [])
      else if vkCode = VK_LCONTROL \<or> vkCode = VK_RCONTROL then (st\<lparr>ctrl := False\<rparr>, [])
      else if vkCode = VK_LMENU \<or> vkCode = VK_RMENU then (st\<lparr>alt := False\<rparr>, [])
      else (st, []))"

text \<open>
  The procedure itself: \<open>code\<close> and \<open>wParam\<close> are its first two parameters, \<open>vkCode\<close> is the
  one field it reads of the \<open>KBDLLHOOKSTRUCT\<close> that \<open>lParam\<close> points to. The result is the
  flags after the call and the string handed to \<open>WriteConsoleA\<close>; the value returned by
  \<open>CallNextHookEx\<close> belongs to Windows and is left out.
\<close>

definition procedure :: "modifiers \<Rightarrow> int \<Rightarrow> WPARAM \<Rightarrow> DWORD \<Rightarrow> modifiers \<times> string" where
  "procedure st code wParam vkCode =
     (if code = HC_ACTION then
        (if wParam = WM_KEYDOWN \<or> wParam = WM_SYSKEYDOWN then procedure_keydown st vkCode
         else if wParam = WM_KEYUP \<or> wParam = WM_SYSKEYUP then procedure_keyup st vkCode
         else (st, []))
      else (st, []))"

text \<open>
  A stream of events: Windows calls the procedure once per event, the static flags live on
  from one call to the next, and the console shows the written strings one after another.
\<close>

fun hook_calls :: "modifiers \<Rightarrow> (int \<times> WPARAM \<times> DWORD) list \<Rightarrow> modifiers \<times> string" where
  "hook_calls st [] = (st, [])"
| "hook_calls st ((code, wParam, vkCode) # events) =
     (case procedure st code wParam vkCode of
        (st', log) \<Rightarrow> (case hook_calls st' events of (st'', rest) \<Rightarrow> (st'', log @ rest)))"

subsection \<open>The case labels, as tables\<close>

text \<open>
  The keys of the key-down switch, read off its \<open>case\<close> labels: the keys whose case calls
  \<open>translate\<close>, with the two characters of the call; among them the digit keys, whose call
  passes \<open>false\<close> for \<open>caps\<close>; the keys whose case appends a fixed string; and the keys
  whose case writes a flag. The lemmas below tie every table to \<open>procedure\<close>.
\<close>

definition digit_keys :: "DWORD list" where
  "digit_keys = [48, 49, 50, 51, 52, 53, 54, 55, 56, 57]"

definition character_table :: "(DWORD \<times> char \<times> char) list" where
  "character_table =
     [(48, CHR ''0'', CHR '')''), (49, CHR ''1'', CHR ''!''), (50, CHR ''2'', CHR ''@''),
      (51, CHR ''3'', CHR ''#''), (52, CHR ''4'', CHR ''$''), (53, CHR ''5'', CHR ''%''),
      (54, CHR ''6'', CHR ''^''), (55, CHR ''7'', CHR ''&''), (56, CHR ''8'', CHR ''*''),
      (57, CHR ''9'', CHR ''(''), (65, CHR ''a'', CHR ''A''), (66, CHR ''b'', CHR ''B''),
      (67, CHR ''c'', CHR ''C''), (68, CHR ''d'', CHR ''D''), (69, CHR ''e'', CHR ''E''),
      (70, CHR ''f'', CHR ''F''), (71, CHR ''g'', CHR ''G''), (72, CHR ''h'', CHR ''H''),
      (73, CHR ''i'', CHR ''I''), (74, CHR ''j'', CHR ''J''), (75, CHR ''k'', CHR ''K''),
      (76, CHR ''l'', CHR ''L''), (77, CHR ''m'', CHR ''M''), (78, CHR ''n'', CHR ''N''),
      (79, CHR ''o'', CHR ''O''), (80, CHR ''p'', CHR ''P''), (81, CHR ''q'', CHR ''Q''),
      (82, CHR ''r'', CHR ''R''), (83, CHR ''s'', CHR ''S''), (84, CHR ''t'', CHR ''T''),
      (85, CHR ''u'', CHR ''U''), (86, CHR ''v'', CHR ''V''), (87, CHR ''w'', CHR ''W''),
      (88, CHR ''x'', CHR ''X''), (89, CHR ''y'', CHR ''Y''), (90, CHR ''z'', CHR ''Z''),
      (VK_OEM_1, CHR '';'', CHR '':''), (VK_OEM_PLUS, CHR ''='', CHR ''+''),
      (VK_OEM_COMMA, CHR '','', CHR ''<''), (VK_OEM_MINUS, CHR ''-'', CHR ''_''),
      (VK_OEM_PERIOD, CHR ''.'', CHR ''>''), (VK_OEM_2, CHR ''/'', CHR ''?''),
      (VK_OEM_3, CHR 0x60, CHR ''~''), (VK_OEM_4, CHR ''['', CHR ''{''),
      (VK_OEM_5, CHR 0x5C, CHR ''|''), (VK_OEM_6, CHR '']'', CHR ''}''),
      (VK_OEM_7, CHR 0x27, CHR 0x22)]"

definition character_keys :: "DWORD list" where
  "character_keys = map fst character_table"

definition literal_table :: "(DWORD \<times> string) list" where
  "literal_table =
     [(VK_BACK, ''<BACKSPACE>''), (VK_TAB, ''<TAB>''),
      (VK_RETURN, ''<RETURN>'' @ [CHR 0x0D, CHR 0x0A]), (VK_ESCAPE, ''<ESC>''),
      (VK_SPACE, '' ''), (VK_PRIOR, ''<PGDN>''), (VK_NEXT, ''<PGUP>''),
      (VK_END, ''<END>''), (VK_HOME, ''<HOME>''), (VK_LEFT, ''<LEFT>''),
      (VK_UP, ''<UP>''), (VK_RIGHT, ''<RIGHT>''), (VK_DOWN, ''<DOWN>''),
      (VK_SNAPSHOT, ''<PRTSC>''), (VK_INSERT, ''<INS>''), (VK_DELETE, ''<DEL>'')]"

definition literal_keys :: "DWORD list" where
  "literal_keys = map fst literal_table"

definition modifier_keys :: "DWORD list" where
  "modifier_keys =
     [VK_CAPITAL, VK_LWIN, VK_RWIN, VK_LSHIFT, VK_RSHIFT,
      VK_LCONTROL, VK_RCONTROL, VK_LMENU, VK_RMENU]"

definition key_down :: "WPARAM \<Rightarrow> bool" where
  "key_down wParam = (wParam = WM_KEYDOWN \<or> wParam = WM_SYSKEYDOWN)"

definition key_up :: "WPARAM \<Rightarrow> bool" where
  "key_up wParam = (wParam = WM_KEYUP \<or> wParam = WM_SYSKEYUP)"

text \<open>The caps-lock flag that the case of a key passes to \<open>translate\<close>.\<close>

definition caps_argument :: "modifiers \<Rightarrow> DWORD \<Rightarrow> bool" where
  "caps_argument st vkCode = (if vkCode \<in> set digit_keys then False else caps st)"


section \<open>Unfolding the Windows constants\<close>

lemmas windows_defs =
  WM_KEYDOWN_def WM_KEYUP_def WM_SYSKEYDOWN_def WM_SYSKEYUP_def VK_BACK_def VK_TAB_def
  VK_RETURN_def VK_CAPITAL_def VK_ESCAPE_def VK_SPACE_def VK_PRIOR_def VK_NEXT_def
  VK_END_def VK_HOME_def VK_LEFT_def VK_UP_def VK_RIGHT_def VK_DOWN_def VK_SNAPSHOT_def
  VK_INSERT_def VK_DELETE_def VK_LWIN_def VK_RWIN_def VK_LSHIFT_def VK_RSHIFT_def
  VK_LCONTROL_def VK_RCONTROL_def VK_LMENU_def VK_RMENU_def VK_OEM_1_def VK_OEM_PLUS_def
  VK_OEM_COMMA_def VK_OEM_MINUS_def VK_OEM_PERIOD_def VK_OEM_2_def VK_OEM_3_def
  VK_OEM_4_def VK_OEM_5_def VK_OEM_6_def VK_OEM_7_def

section \<open>Facts about translate\<close>

lemma translate_plain:
  "translate p s False sh cp False False = [if sh \<noteq> cp then s else p]"
  by (simp add: translate_def)

lemma translate_decorated:
  "w \<or> c \<or> a \<Longrightarrow>
   translate p s w sh cp c a =
     ''<'' @ (if w then ''WIN + '' else []) @ (if c then ''CTRL + '' else []) @
     (if a then ''ALT + '' else []) @ [if sh then s else p] @ ''>''"
  by (cases w; cases c; cases a; simp add: translate_def)

section \<open>The tables against the switch\<close>

lemma keydown_character_all:
  "list_all (\<lambda>(vk, p, s). procedure_keydown st vk =
     (st, translate p s (win st) (shift st) (caps_argument st vk) (ctrl st) (alt st)))
     character_table"
  by (simp add: character_table_def procedure_keydown_def caps_argument_def digit_keys_def
      windows_defs)

lemma keydown_character:
  assumes "(vk, p, s) \<in> set character_table"
  shows "procedure_keydown st vk =
     (st, translate p s (win st) (shift st) (caps_argument st vk) (ctrl st) (alt st))"
  using keydown_character_all [of st] assms by (auto simp: list_all_iff)

lemma keydown_literal_all:
  "list_all (\<lambda>(vk, l). procedure_keydown st vk = (st, l)) literal_table"
  by (simp add: literal_table_def procedure_keydown_def windows_defs)

lemma keydown_literal:
  assumes "(vk, l) \<in> set literal_table"
  shows "procedure_keydown st vk = (st, l)"
  using keydown_literal_all [of st] assms by (auto simp: list_all_iff)

lemma keydown_modifier_all:
  "list_all (\<lambda>vk. snd (procedure_keydown st vk) = []) modifier_keys"
  by (simp add: modifier_keys_def procedure_keydown_def windows_defs)

lemma keydown_modifier:
  "vk \<in> set modifier_keys \<Longrightarrow> snd (procedure_keydown st vk) = []"
  using keydown_modifier_all [of st] by (simp add: list_all_iff)

lemma keydown_unmapped:
  "vk \<notin> set character_keys \<Longrightarrow> vk \<notin> set literal_keys \<Longrightarrow> vk \<notin> set modifier_keys \<Longrightarrow>
   procedure_keydown st vk = (st, [])"
  by (simp add: character_keys_def character_table_def literal_keys_def literal_table_def
      modifier_keys_def procedure_keydown_def windows_defs)

lemma keydown_nonmodifier_flags:
  "vk \<notin> set modifier_keys \<Longrightarrow> fst (procedure_keydown st vk) = st"
  by (simp add: modifier_keys_def procedure_keydown_def windows_defs)

lemma keyup_nonmodifier:
  "vk \<notin> set modifier_keys \<Longrightarrow> procedure_keyup st vk = (st, [])"
  by (simp add: modifier_keys_def procedure_keyup_def windows_defs)

lemma keyup_silent: "snd (procedure_keyup st vk) = []"
  by (simp add: procedure_keyup_def)

lemma character_table_distinct:
  "(vk, p, s) \<in> set character_table \<Longrightarrow> p \<noteq> s"
  unfolding character_table_def by auto

lemma character_not_modifier_all:
  "list_all (\<lambda>(vk, p, s). vk \<notin> set modifier_keys) character_table"
  by (simp add: character_table_def modifier_keys_def windows_defs)

lemma character_not_modifier:
  "(vk, p, s) \<in> set character_table \<Longrightarrow> vk \<notin> set modifier_keys"
  using character_not_modifier_all by (auto simp: list_all_iff)

lemma procedure_down:
  "key_down w \<Longrightarrow> procedure st HC_ACTION w vk = procedure_keydown st vk"
  by (simp add: procedure_def key_down_def)

lemma procedure_up:
  "key_up w \<Longrightarrow> procedure st HC_ACTION w vk = procedure_keyup st vk"
  by (auto simp: procedure_def key_up_def windows_defs)

lemma procedure_other:
  "\<not> key_down w \<Longrightarrow> \<not> key_up w \<Longrightarrow> procedure st code w vk = (st, [])"
  by (simp add: procedure_def key_down_def key_up_def)

lemma procedure_character:
  assumes "(vk, p, s) \<in> set character_table" and "key_down w"
  shows "procedure st HC_ACTION w vk =
     (st, translate p s (win st) (shift st) (caps_argument st vk) (ctrl st) (alt st))"
  using assms by (simp add: procedure_down keydown_character)

section \<open>Character keys without a decorating modifier\<close>

text \<open>
  Claim C1, as stated: for every character-table key event with none of meta, control, alt
  active, the secondary character is emitted exactly when shift and caps-lock differ. The
  digit keys do not follow it: the case of a digit key passes \<open>false\<close> to \<open>translate\<close> in
  place of the caps-lock flag. With caps-lock on and shift up the two flags differ, and the
  key \<open>1\<close> still writes its primary character.
\<close>

theorem xor_law_digit_counterexample:
  "(49, CHR ''1'', CHR ''!'') \<in> set character_table
   \<and> \<not> (win (initial_modifiers\<lparr>caps := True\<rparr>) \<or> ctrl (initial_modifiers\<lparr>caps := True\<rparr>)
          \<or> alt (initial_modifiers\<lparr>caps := True\<rparr>))
   \<and> shift (initial_modifiers\<lparr>caps := True\<rparr>) \<noteq> caps (initial_modifiers\<lparr>caps := True\<rparr>)
   \<and> snd (procedure (initial_modifiers\<lparr>caps := True\<rparr>) HC_ACTION WM_KEYDOWN 49) \<noteq> [CHR ''!'']
   \<and> snd (procedure (initial_modifiers\<lparr>caps := True\<rparr>) HC_ACTION WM_KEYDOWN 49) = [CHR ''1'']"
  by (simp add: character_table_def initial_modifiers_def procedure_def procedure_keydown_def
      translate_def windows_defs)

text \<open>
  Claim C1, amended: for every key-down of a character-table key with none of meta,
  control, alt active, and for all values of shift and caps-lock, a letter or punctuation
  key writes its secondary character exactly when shift and caps-lock differ, and its
  primary character exactly when they agree; a digit key writes its secondary character
  exactly when shift is held, whatever caps-lock is.
\<close>

theorem xor_law_character_keys:
  assumes "(vk, p, s) \<in> set character_table" and "key_down w"
    and "\<not> (win st \<or> ctrl st \<or> alt st)"
  shows "(snd (procedure st HC_ACTION w vk) = [s])
           = (shift st \<noteq> (vk \<notin> set digit_keys \<and> caps st))
       \<and> (snd (procedure st HC_ACTION w vk) = [p])
           = (shift st = (vk \<notin> set digit_keys \<and> caps st))"
proof -
  have ps: "p \<noteq> s"
    using assms(1) by (rule character_table_distinct)
  have "snd (procedure st HC_ACTION w vk)
          = translate p s False (shift st) (caps_argument st vk) False False"
    using assms by (simp add: procedure_character)
  then have out: "snd (procedure st HC_ACTION w vk)
          = [if shift st \<noteq> caps_argument st vk then s else p]"
    by (simp only: translate_plain)
  have arg: "caps_argument st vk = (vk \<notin> set digit_keys \<and> caps st)"
    by (simp add: caps_argument_def)
  show ?thesis
    using ps unfolding out arg by auto
qed

theorem xor_law_character_keys_witness:
  "(65, CHR ''a'', CHR ''A'') \<in> set character_table \<and> key_down WM_KEYDOWN
   \<and> \<not> (win (initial_modifiers\<lparr>shift := True\<rparr>) \<or> ctrl (initial_modifiers\<lparr>shift := True\<rparr>)
          \<or> alt (initial_modifiers\<lparr>shift := True\<rparr>))
   \<and> snd (procedure (initial_modifiers\<lparr>shift := True\<rparr>) HC_ACTION WM_KEYDOWN 65) = ''A''"
proof -
  have tab: "(65, CHR ''a'', CHR ''A'') \<in> set character_table"
    by (simp add: character_table_def)
  have dn: "key_down WM_KEYDOWN"
    by (simp add: key_down_def)
  have plain: "\<not> (win (initial_modifiers\<lparr>shift := True\<rparr>) \<or> ctrl (initial_modifiers\<lparr>shift := True\<rparr>)
          \<or> alt (initial_modifiers\<lparr>shift := True\<rparr>))"
    by (simp add: initial_modifiers_def)
  show ?thesis
    using tab dn plain xor_law_character_keys [OF tab dn plain]
    by (simp add: initial_modifiers_def digit_keys_def)
qed

text \<open>
  Claim C2, as stated: for every character-table key, digits included, the caps-lock flag
  used in the selection is the real toggle, so that with caps-lock on and shift up every
  such key writes its secondary character. For the key \<open>0\<close> the flag handed to
  \<open>translate\<close> is \<open>false\<close>: after caps-lock has been pressed and released, the key writes
  \<open>0\<close> and not the closing parenthesis.
\<close>

theorem caps_lock_digit_counterexample:
  "(48, CHR ''0'', CHR '')'') \<in> set character_table
   \<and> caps (initial_modifiers\<lparr>caps := True\<rparr>) \<and> \<not> shift (initial_modifiers\<lparr>caps := True\<rparr>)
   \<and> \<not> (win (initial_modifiers\<lparr>caps := True\<rparr>) \<or> ctrl (initial_modifiers\<lparr>caps := True\<rparr>)
          \<or> alt (initial_modifiers\<lparr>caps := True\<rparr>))
   \<and> snd (procedure (initial_modifiers\<lparr>caps := True\<rparr>) HC_ACTION WM_KEYDOWN 48)
        = translate (CHR ''0'') (CHR '')'') False False False False False
   \<and> snd (procedure (initial_modifiers\<lparr>caps := True\<rparr>) HC_ACTION WM_KEYDOWN 48)
        \<noteq> translate (CHR ''0'') (CHR '')'') False False True False False
   \<and> snd (procedure (initial_modifiers\<lparr>caps := True\<rparr>) HC_ACTION WM_KEYDOWN 48) \<noteq> [CHR '')'']
   \<and> hook_calls initial_modifiers
        [(HC_ACTION, WM_KEYDOWN, VK_CAPITAL), (HC_ACTION, WM_KEYUP, VK_CAPITAL),
         (HC_ACTION, WM_KEYDOWN, 48)]
        = (initial_modifiers\<lparr>caps := True\<rparr>, ''0'')"
  by (simp add: character_table_def initial_modifiers_def procedure_def procedure_keydown_def
      procedure_keyup_def translate_def windows_defs)

text \<open>
  Claim C2, amended: on a key-down of a character-table key while none of meta, control,
  alt is active, the caps-lock flag used in the selection of the character is the real
  toggle for the letter and punctuation keys, and \<open>false\<close> for the digit keys: the text
  is the one character that shift and this flag select, and no other value of the flag
  gives that text. In particular, with caps-lock on and shift up, a letter or punctuation
  key writes its secondary character and a digit key its primary character.
\<close>

theorem effective_caps_lock:
  assumes "(vk, p, s) \<in> set character_table" and "key_down w"
    and "\<not> (win st \<or> ctrl st \<or> alt st)"
  shows "(snd (procedure st HC_ACTION w vk) = [if shift st \<noteq> b then s else p])
           = (b = (if vk \<in> set digit_keys then False else caps st))
       \<and> snd (procedure st HC_ACTION w vk)
           = translate p s False (shift st)
               (if vk \<in> set digit_keys then False else caps st) False False
       \<and> (caps st \<and> \<not> shift st \<longrightarrow>
            snd (procedure st HC_ACTION w vk) = (if vk \<in> set digit_keys then [p] else [s]))"
proof -
  have ps: "p \<noteq> s"
    using assms(1) by (rule character_table_distinct)
  have call: "snd (procedure st HC_ACTION w vk)
      = translate p s False (shift st)
          (if vk \<in> set digit_keys then False else caps st) False False"
    using assms(3) procedure_character [OF assms(1,2), of st]
    by (simp add: caps_argument_def)
  have out: "snd (procedure st HC_ACTION w vk)
      = [if shift st \<noteq> (if vk \<in> set digit_keys then False else caps st) then s else p]"
    unfolding call by (rule translate_plain)
  have pin: "(snd (procedure st HC_ACTION w vk) = [if shift st \<noteq> b then s else p])
      = (b = (if vk \<in> set digit_keys then False else caps st))"
    unfolding out using ps by auto
  have part: "caps st \<and> \<not> shift st \<longrightarrow>
      snd (procedure st HC_ACTION w vk) = (if vk \<in> set digit_keys then [p] else [s])"
    unfolding out by simp
  show ?thesis
    using pin call part by (intro conjI)
qed

theorem effective_caps_lock_witness:
  "(VK_OEM_1, CHR '';'', CHR '':'') \<in> set character_table \<and> key_down WM_KEYDOWN
   \<and> \<not> (win (initial_modifiers\<lparr>caps := True\<rparr>) \<or> ctrl (initial_modifiers\<lparr>caps := True\<rparr>)
          \<or> alt (initial_modifiers\<lparr>caps := True\<rparr>))
   \<and> VK_OEM_1 \<notin> set digit_keys
   \<and> snd (procedure (initial_modifiers\<lparr>caps := True\<rparr>) HC_ACTION WM_KEYDOWN VK_OEM_1) = '':''
   \<and> snd (procedure (initial_modifiers\<lparr>caps := True\<rparr>) HC_ACTION WM_KEYDOWN VK_OEM_1)
        \<noteq> [if shift (initial_modifiers\<lparr>caps := True\<rparr>) \<noteq> False then CHR '':'' else CHR '';'']"
proof -
  have tab: "(VK_OEM_1, CHR '';'', CHR '':'') \<in> set character_table"
    by (simp add: character_table_def)
  have dn: "key_down WM_KEYDOWN"
    by (simp add: key_down_def)
  have plain: "\<not> (win (initial_modifiers\<lparr>caps := True\<rparr>) \<or> ctrl (initial_modifiers\<lparr>caps := True\<rparr>)
      \<or> alt (initial_modifiers\<lparr>caps := True\<rparr>))"
    by (simp add: initial_modifiers_def)
  have nd: "VK_OEM_1 \<notin> set digit_keys"
    by (simp add: digit_keys_def VK_OEM_1_def)
  have used: "snd (procedure (initial_modifiers\<lparr>caps := True\<rparr>) HC_ACTION WM_KEYDOWN VK_OEM_1)
      = '':''"
    using nd effective_caps_lock [OF tab dn plain, of True]
    by (simp add: initial_modifiers_def)
  have other: "snd (procedure (initial_modifiers\<lparr>caps := True\<rparr>) HC_ACTION WM_KEYDOWN VK_OEM_1)
      \<noteq> [if shift (initial_modifiers\<lparr>caps := True\<rparr>) \<noteq> False then CHR '':'' else CHR '';'']"
    using nd effective_caps_lock [OF tab dn plain, of False]
    by (simp add: initial_modifiers_def translate_plain)
  show ?thesis
    using tab dn plain nd used other by (intro conjI)
qed

section \<open>Character keys under a decorating modifier\<close>

text \<open>
  Claim C3, as stated: for every character-table key event with at least one of meta,
  control, alt active, the text is the translation with caps-lock suppressed, wrapped in
  angle brackets. A key-up is such an event, and the key-up branch of the procedure has
  no case for a character key: with control held, the key-up of \<open>c\<close> writes the empty
  text, with no bracket, where the translation is \<open><CTRL + c>\<close>.
\<close>

theorem decorated_key_up_counterexample:
  "(67, CHR ''c'', CHR ''C'') \<in> set character_table \<and> key_up WM_KEYUP
   \<and> ctrl (initial_modifiers\<lparr>ctrl := True\<rparr>)
   \<and> procedure (initial_modifiers\<lparr>ctrl := True\<rparr>) HC_ACTION WM_KEYUP 67
        = (initial_modifiers\<lparr>ctrl := True\<rparr>, [])
   \<and> translate (CHR ''c'') (CHR ''C'') (win (initial_modifiers\<lparr>ctrl := True\<rparr>))
        (shift (initial_modifiers\<lparr>ctrl := True\<rparr>)) False
        (ctrl (initial_modifiers\<lparr>ctrl := True\<rparr>)) (alt (initial_modifiers\<lparr>ctrl := True\<rparr>))
        = ''<CTRL + c>''
   \<and> snd (procedure (initial_modifiers\<lparr>ctrl := True\<rparr>) HC_ACTION WM_KEYUP 67)
        \<noteq> ''<CTRL + c>''"
  by (simp add: character_table_def key_up_def initial_modifiers_def procedure_def
      procedure_keyup_def translate_def windows_defs)

text \<open>
  Claim C3, amended: on a key-down of a character-table key while at least one of meta,
  control, alt is active, caps-lock has no part in the selection (the text is the one
  \<open>translate\<close> gives for a caps-lock flag of \<open>false\<close>, and it is the same whatever the
  toggle is set to: shift alone selects the character), and the text starts with the
  opening and ends with the closing angle bracket. A key-up of a character-table key
  writes nothing and changes no flag.
\<close>

theorem decoration_suppresses_caps_lock:
  assumes "(vk, p, s) \<in> set character_table" and "key_down w"
    and "win st \<or> ctrl st \<or> alt st"
  shows "snd (procedure st HC_ACTION w vk)
           = translate p s (win st) (shift st) False (ctrl st) (alt st)
       \<and> snd (procedure (st\<lparr>caps := c\<rparr>) HC_ACTION w vk) = snd (procedure st HC_ACTION w vk)
       \<and> hd (snd (procedure st HC_ACTION w vk)) = CHR ''<''
       \<and> last (snd (procedure st HC_ACTION w vk)) = CHR ''>''
       \<and> last (butlast (snd (procedure st HC_ACTION w vk))) = (if shift st then s else p)
       \<and> (key_up u \<longrightarrow> procedure st HC_ACTION u vk = (st, []))"
proof -
  have any: "snd (procedure (st\<lparr>caps := b\<rparr>) HC_ACTION w vk) =
      ''<'' @ (if win st then ''WIN + '' else []) @ (if ctrl st then ''CTRL + '' else []) @
      (if alt st then ''ALT + '' else []) @ [if shift st then s else p] @ ''>''" for b
    using assms(3) procedure_character [OF assms(1,2), of "st\<lparr>caps := b\<rparr>"]
    by (simp add: translate_decorated)
  have same: "snd (procedure st HC_ACTION w vk) = snd (procedure (st\<lparr>caps := b\<rparr>) HC_ACTION w vk)"
    for b
    using any [of "caps st"] any [of b] by simp
  have off: "snd (procedure st HC_ACTION w vk)
      = translate p s (win st) (shift st) False (ctrl st) (alt st)"
    using assms(3) same [of "caps st"] any [of "caps st"] by (simp add: translate_decorated)
  have "vk \<notin> set modifier_keys"
    using assms(1) by (rule character_not_modifier)
  then have up: "key_up u \<longrightarrow> procedure st HC_ACTION u vk = (st, [])"
    by (simp add: procedure_up keyup_nonmodifier)
  show ?thesis
    using off same [of c] any [of "caps st"] up by simp
qed

theorem decoration_suppresses_caps_lock_witness:
  "(67, CHR ''c'', CHR ''C'') \<in> set character_table \<and> key_down WM_KEYDOWN
   \<and> key_up WM_SYSKEYUP
   \<and> ctrl (initial_modifiers\<lparr>caps := True, ctrl := True\<rparr>)
   \<and> caps (initial_modifiers\<lparr>caps := True, ctrl := True\<rparr>)
   \<and> snd (procedure (initial_modifiers\<lparr>caps := True, ctrl := True\<rparr>) HC_ACTION WM_KEYDOWN 67)
        = ''<CTRL + c>''
   \<and> procedure (initial_modifiers\<lparr>caps := True, ctrl := True\<rparr>) HC_ACTION WM_SYSKEYUP 67
        = (initial_modifiers\<lparr>caps := True, ctrl := True\<rparr>, [])"
proof -
  have tab: "(67, CHR ''c'', CHR ''C'') \<in> set character_table"
    by (simp add: character_table_def)
  have dn: "key_down WM_KEYDOWN"
    by (simp add: key_down_def)
  have up: "key_up WM_SYSKEYUP"
    by (simp add: key_up_def)
  have dec: "win (initial_modifiers\<lparr>caps := True, ctrl := True\<rparr>)
      \<or> ctrl (initial_modifiers\<lparr>caps := True, ctrl := True\<rparr>)
      \<or> alt (initial_modifiers\<lparr>caps := True, ctrl := True\<rparr>)"
    by simp
  show ?thesis
    using tab dn up decoration_suppresses_caps_lock [OF tab dn dec, of _ WM_SYSKEYUP]
    by (simp add: initial_modifiers_def translate_def)
qed

text \<open>
  Claim C4, as stated: for every decorated character-table key event the prefix tokens
  appear in the order meta, control, alt. On a key-up no token appears at all: with meta
  and control held, the key-up of \<open>a\<close> writes the empty text, where the key-down writes
  \<open><WIN + CTRL + a>\<close>.
\<close>

theorem prefix_key_up_counterexample:
  "(65, CHR ''a'', CHR ''A'') \<in> set character_table \<and> key_up WM_KEYUP
   \<and> win (initial_modifiers\<lparr>win := True, ctrl := True\<rparr>)
   \<and> ctrl (initial_modifiers\<lparr>win := True, ctrl := True\<rparr>)
   \<and> snd (procedure (initial_modifiers\<lparr>win := True, ctrl := True\<rparr>) HC_ACTION WM_KEYUP 65) = []
   \<and> snd (procedure (initial_modifiers\<lparr>win := True, ctrl := True\<rparr>) HC_ACTION WM_KEYUP 65)
        \<noteq> ''<WIN + CTRL + a>''
   \<and> snd (procedure (initial_modifiers\<lparr>win := True, ctrl := True\<rparr>) HC_ACTION WM_KEYDOWN 65)
        = ''<WIN + CTRL + a>''
   \<and> snd (hook_calls initial_modifiers
        [(HC_ACTION, WM_KEYDOWN, VK_LWIN), (HC_ACTION, WM_KEYDOWN, VK_LCONTROL),
         (HC_ACTION, WM_KEYUP, 65)]) = []"
  by (simp add: character_table_def key_up_def initial_modifiers_def procedure_def
      procedure_keydown_def procedure_keyup_def translate_def windows_defs)

text \<open>
  Claim C4, amended: on a key-down of a character-table key while at least one of meta,
  control, alt is active, the text is the opening bracket, then \<open>WIN + \<close> if meta is
  active, then \<open>CTRL + \<close> if control is active, then \<open>ALT + \<close> if alt is active, then the
  selected character, then the closing bracket. Shift adds no token: it only selects the
  character. The events meta-down, control-down, a-down, from the initial flags, write
  \<open><WIN + CTRL + a>\<close>. A key-up of a character-table key writes nothing, so no token.
\<close>

theorem decoration_prefix_order:
  assumes "(vk, p, s) \<in> set character_table" and "key_down w"
    and "win st \<or> ctrl st \<or> alt st"
  shows "snd (procedure st HC_ACTION w vk) =
           ''<'' @ (if win st then ''WIN + '' else []) @ (if ctrl st then ''CTRL + '' else []) @
           (if alt st then ''ALT + '' else []) @ [if shift st then s else p] @ ''>''
       \<and> snd (hook_calls initial_modifiers
            [(HC_ACTION, WM_KEYDOWN, VK_LWIN), (HC_ACTION, WM_KEYDOWN, VK_LCONTROL),
             (HC_ACTION, WM_KEYDOWN, 65)]) = ''<WIN + CTRL + a>''
       \<and> (key_up u \<longrightarrow> snd (procedure st HC_ACTION u vk) = [])"
proof -
  have dn: "snd (procedure st HC_ACTION w vk) =
      ''<'' @ (if win st then ''WIN + '' else []) @ (if ctrl st then ''CTRL + '' else []) @
      (if alt st then ''ALT + '' else []) @ [if shift st then s else p] @ ''>''"
    using assms(3) procedure_character [OF assms(1,2), of st]
    by (simp add: translate_decorated)
  have run: "snd (hook_calls initial_modifiers
      [(HC_ACTION, WM_KEYDOWN, VK_LWIN), (HC_ACTION, WM_KEYDOWN, VK_LCONTROL),
       (HC_ACTION, WM_KEYDOWN, 65)]) = ''<WIN + CTRL + a>''"
    by (simp add: initial_modifiers_def procedure_def procedure_keydown_def translate_def
        windows_defs)
  have up: "key_up u \<longrightarrow> snd (procedure st HC_ACTION u vk) = []"
    by (simp add: procedure_up keyup_silent)
  show ?thesis
    using dn run up by (intro conjI)
qed

theorem decoration_prefix_order_witness:
  "(65, CHR ''a'', CHR ''A'') \<in> set character_table \<and> key_down WM_SYSKEYDOWN
   \<and> key_up WM_SYSKEYUP
   \<and> win \<lparr>win = True, shift = True, caps = False, ctrl = True, alt = True\<rparr>
   \<and> snd (procedure \<lparr>win = True, shift = True, caps = False, ctrl = True, alt = True\<rparr>
        HC_ACTION WM_SYSKEYDOWN 65) = ''<WIN + CTRL + ALT + A>''
   \<and> snd (procedure \<lparr>win = True, shift = True, caps = False, ctrl = True, alt = True\<rparr>
        HC_ACTION WM_SYSKEYUP 65) = []"
proof -
  have tab: "(65, CHR ''a'', CHR ''A'') \<in> set character_table"
    by (simp add: character_table_def)
  have dn: "key_down WM_SYSKEYDOWN"
    by (simp add: key_down_def)
  have up: "key_up WM_SYSKEYUP"
    by (simp add: key_up_def)
  have dec: "win \<lparr>win = True, shift = True, caps = False, ctrl = True, alt = True\<rparr>
      \<or> ctrl \<lparr>win = True, shift = True, caps = False, ctrl = True, alt = True\<rparr>
      \<or> alt \<lparr>win = True, shift = True, caps = False, ctrl = True, alt = True\<rparr>"
    by simp
  show ?thesis
    using tab dn up decoration_prefix_order [OF tab dn dec, of WM_SYSKEYUP] by simp
qed

section \<open>The modifier flags\<close>

text \<open>
  Claim C5: caps-lock is a toggle. Every key-down of the caps-lock key negates the caps
  flag, leaves the other flags alone and writes nothing, so two key-downs in a row (with
  or without the key-up between them) restore the flags; a key-up of the caps-lock key
  changes no flag and writes nothing.
\<close>

theorem caps_lock_toggle:
  assumes "key_down d" and "key_down d'" and "key_up u"
  shows "procedure st HC_ACTION d VK_CAPITAL = (st\<lparr>caps := \<not> caps st\<rparr>, [])
       \<and> procedure st HC_ACTION u VK_CAPITAL = (st, [])
       \<and> hook_calls st [(HC_ACTION, d, VK_CAPITAL), (HC_ACTION, d', VK_CAPITAL)] = (st, [])
       \<and> hook_calls st [(HC_ACTION, d, VK_CAPITAL), (HC_ACTION, u, VK_CAPITAL),
            (HC_ACTION, d', VK_CAPITAL), (HC_ACTION, u, VK_CAPITAL)] = (st, [])"
proof -
  have dn: "procedure t HC_ACTION w VK_CAPITAL = (t\<lparr>caps := \<not> caps t\<rparr>, [])"
    if "key_down w" for t w
    using that by (simp add: procedure_down procedure_keydown_def windows_defs)
  have up: "procedure t HC_ACTION u VK_CAPITAL = (t, [])" for t
    using assms(3) by (simp add: procedure_up procedure_keyup_def windows_defs)
  show ?thesis
    using assms(1,2) by (simp add: dn up)
qed

theorem caps_lock_toggle_witness:
  "key_down WM_KEYDOWN \<and> key_up WM_KEYUP
   \<and> procedure initial_modifiers HC_ACTION WM_KEYDOWN VK_CAPITAL
        = (initial_modifiers\<lparr>caps := True\<rparr>, [])
   \<and> procedure (initial_modifiers\<lparr>caps := True\<rparr>) HC_ACTION WM_KEYDOWN VK_CAPITAL
        = (initial_modifiers, [])
   \<and> procedure (initial_modifiers\<lparr>caps := True\<rparr>) HC_ACTION WM_KEYUP VK_CAPITAL
        = (initial_modifiers\<lparr>caps := True\<rparr>, [])
   \<and> hook_calls initial_modifiers
        [(HC_ACTION, WM_KEYDOWN, VK_CAPITAL), (HC_ACTION, WM_KEYDOWN, VK_CAPITAL)]
        = (initial_modifiers, [])"
proof -
  have d: "key_down WM_KEYDOWN"
    by (simp add: key_down_def)
  have u: "key_up WM_KEYUP"
    by (simp add: key_up_def)
  show ?thesis
    using d u caps_lock_toggle [OF d d u, of initial_modifiers]
      caps_lock_toggle [OF d d u, of "initial_modifiers\<lparr>caps := True\<rparr>"]
    by (simp add: initial_modifiers_def)
qed

text \<open>
  Claim C6: the left and the right key of shift, control, alt and meta are interchangeable.
  A key-down of either key of a pair sets the flag of the pair, a key-up of either clears
  it; no other flag changes and nothing is written. So left-shift down followed by
  right-shift up leaves the shift flag cleared.
\<close>

theorem modifier_left_right:
  assumes "key_down d" and "key_up u"
  shows "(vk = VK_LWIN \<or> vk = VK_RWIN \<longrightarrow>
            procedure st HC_ACTION d vk = (st\<lparr>win := True\<rparr>, [])
            \<and> procedure st HC_ACTION u vk = (st\<lparr>win := False\<rparr>, []))
       \<and> (vk = VK_LSHIFT \<or> vk = VK_RSHIFT \<longrightarrow>
            procedure st HC_ACTION d vk = (st\<lparr>shift := True\<rparr>, [])
            \<and> procedure st HC_ACTION u vk = (st\<lparr>shift := False\<rparr>, []))
       \<and> (vk = VK_LCONTROL \<or> vk = VK_RCONTROL \<longrightarrow>
            procedure st HC_ACTION d vk = (st\<lparr>ctrl := True\<rparr>, [])
            \<and> procedure st HC_ACTION u vk = (st\<lparr>ctrl := False\<rparr>, []))
       \<and> (vk = VK_LMENU \<or> vk = VK_RMENU \<longrightarrow>
            procedure st HC_ACTION d vk = (st\<lparr>alt := True\<rparr>, [])
            \<and> procedure st HC_ACTION u vk = (st\<lparr>alt := False\<rparr>, []))
       \<and> hook_calls st [(HC_ACTION, d, VK_LSHIFT), (HC_ACTION, u, VK_RSHIFT)]
            = (st\<lparr>shift := False\<rparr>, [])"
proof -
  have dn: "procedure t HC_ACTION d k = procedure_keydown t k" for t k
    using assms(1) by (rule procedure_down)
  have up: "procedure t HC_ACTION u k = procedure_keyup t k" for t k
    using assms(2) by (rule procedure_up)
  have a: "vk = VK_LWIN \<or> vk = VK_RWIN \<longrightarrow>
      procedure_keydown st vk = (st\<lparr>win := True\<rparr>, [])
      \<and> procedure_keyup st vk = (st\<lparr>win := False\<rparr>, [])"
    by (auto simp: procedure_keydown_def procedure_keyup_def windows_defs)
  have b: "vk = VK_LSHIFT \<or> vk = VK_RSHIFT \<longrightarrow>
      procedure_keydown st vk = (st\<lparr>shift := True\<rparr>, [])
      \<and> procedure_keyup st vk = (st\<lparr>shift := False\<rparr>, [])"
    by (auto simp: procedure_keydown_def procedure_keyup_def windows_defs)
  have c: "vk = VK_LCONTROL \<or> vk = VK_RCONTROL \<longrightarrow>
      procedure_keydown st vk = (st\<lparr>ctrl := True\<rparr>, [])
      \<and> procedure_keyup st vk = (st\<lparr>ctrl := False\<rparr>, [])"
    by (auto simp: procedure_keydown_def procedure_keyup_def windows_defs)
  have e: "vk = VK_LMENU \<or> vk = VK_RMENU \<longrightarrow>
      procedure_keydown st vk = (st\<lparr>alt := True\<rparr>, [])
      \<and> procedure_keyup st vk = (st\<lparr>alt := False\<rparr>, [])"
    by (auto simp: procedure_keydown_def procedure_keyup_def windows_defs)
  have f: "hook_calls st [(HC_ACTION, d, VK_LSHIFT), (HC_ACTION, u, VK_RSHIFT)]
      = (st\<lparr>shift := False\<rparr>, [])"
    by (simp add: dn up procedure_keydown_def procedure_keyup_def windows_defs)
  show ?thesis
    unfolding dn up using a b c e f by blast
qed

theorem modifier_left_right_witness:
  "key_down WM_KEYDOWN \<and> key_up WM_KEYUP
   \<and> procedure initial_modifiers HC_ACTION WM_KEYDOWN VK_RSHIFT
        = (initial_modifiers\<lparr>shift := True\<rparr>, [])
   \<and> procedure (initial_modifiers\<lparr>shift := True\<rparr>) HC_ACTION WM_KEYUP VK_LSHIFT
        = (initial_modifiers, [])
   \<and> hook_calls initial_modifiers
        [(HC_ACTION, WM_KEYDOWN, VK_LSHIFT), (HC_ACTION, WM_KEYUP, VK_RSHIFT)]
        = (initial_modifiers, [])"
proof -
  have d: "key_down WM_KEYDOWN"
    by (simp add: key_down_def)
  have u: "key_up WM_KEYUP"
    by (simp add: key_up_def)
  show ?thesis
    using d u modifier_left_right [OF d u, of VK_RSHIFT initial_modifiers]
      modifier_left_right [OF d u, of VK_LSHIFT "initial_modifiers\<lparr>shift := True\<rparr>"]
    by (simp add: initial_modifiers_def)
qed

section \<open>Keys outside the character table\<close>

text \<open>
  Claim C7: an event whose virtual-key code is in neither the character table nor the
  literal-label table and is not a modifier writes the empty text and leaves all five
  flags as they were, whatever the hook code and the message are. The procedure has no
  other outcome to give: it raises nothing and returns no error, and the text it hands to
  the console is empty.
\<close>

theorem unmapped_code_silent:
  assumes "vk \<notin> set character_keys" and "vk \<notin> set literal_keys"
    and "vk \<notin> set modifier_keys"
  shows "procedure st code wParam vk = (st, [])"
proof -
  have dn: "procedure_keydown st vk = (st, [])"
    using assms by (rule keydown_unmapped)
  have up: "procedure_keyup st vk = (st, [])"
    using assms(3) by (rule keyup_nonmodifier)
  show ?thesis
    by (simp add: procedure_def dn up)
qed

theorem unmapped_code_silent_witness:
  "(0x70 :: DWORD) \<notin> set character_keys \<and> (0x70 :: DWORD) \<notin> set literal_keys
   \<and> (0x70 :: DWORD) \<notin> set modifier_keys
   \<and> procedure \<lparr>win = True, shift = True, caps = True, ctrl = False, alt = False\<rparr>
        HC_ACTION WM_KEYDOWN 0x70
        = (\<lparr>win = True, shift = True, caps = True, ctrl = False, alt = False\<rparr>, [])"
proof -
  have c: "(0x70 :: DWORD) \<notin> set character_keys"
    by (simp add: character_keys_def character_table_def windows_defs)
  have l: "(0x70 :: DWORD) \<notin> set literal_keys"
    by (simp add: literal_keys_def literal_table_def windows_defs)
  have m: "(0x70 :: DWORD) \<notin> set modifier_keys"
    by (simp add: modifier_keys_def windows_defs)
  show ?thesis
    using c l m unmapped_code_silent [OF c l m] by simp
qed

text \<open>
  Claim C8: a key-down of a literal-label key (Backspace, Tab, Return, Escape, Space,
  Page-Up, Page-Down, End, Home, the four arrows, Print-Screen, Insert, Delete) writes the
  fixed string of its case and changes no flag, whatever the five flags are: the text
  is the same for any two states, with no case selection, no added brackets and no prefix
  token. Return writes its label followed by carriage return and line feed.
\<close>

theorem literal_labels_fixed:
  assumes "(vk, label) \<in> set literal_table" and "key_down w"
  shows "procedure st HC_ACTION w vk = (st, label)
       \<and> snd (procedure st' HC_ACTION w vk) = snd (procedure st HC_ACTION w vk)
       \<and> procedure st HC_ACTION w VK_RETURN = (st, ''<RETURN>'' @ [CHR 0x0D, CHR 0x0A])
       \<and> literal_keys =
           [VK_BACK, VK_TAB, VK_RETURN, VK_ESCAPE, VK_SPACE, VK_PRIOR, VK_NEXT, VK_END,
            VK_HOME, VK_LEFT, VK_UP, VK_RIGHT, VK_DOWN, VK_SNAPSHOT, VK_INSERT, VK_DELETE]"
proof -
  have lab: "procedure t HC_ACTION w vk = (t, label)" for t
    using assms by (simp add: procedure_down keydown_literal)
  have "(VK_RETURN, ''<RETURN>'' @ [CHR 0x0D, CHR 0x0A]) \<in> set literal_table"
    by (simp add: literal_table_def)
  then have ret: "procedure st HC_ACTION w VK_RETURN = (st, ''<RETURN>'' @ [CHR 0x0D, CHR 0x0A])"
    using assms(2) by (simp add: procedure_down keydown_literal)
  have keys: "literal_keys =
      [VK_BACK, VK_TAB, VK_RETURN, VK_ESCAPE, VK_SPACE, VK_PRIOR, VK_NEXT, VK_END,
       VK_HOME, VK_LEFT, VK_UP, VK_RIGHT, VK_DOWN, VK_SNAPSHOT, VK_INSERT, VK_DELETE]"
    by (simp add: literal_keys_def literal_table_def)
  show ?thesis
    using ret keys by (simp add: lab)
qed

theorem literal_labels_fixed_witness:
  "(VK_BACK, ''<BACKSPACE>'') \<in> set literal_table \<and> key_down WM_KEYDOWN
   \<and> procedure \<lparr>win = True, shift = True, caps = True, ctrl = True, alt = True\<rparr>
        HC_ACTION WM_KEYDOWN VK_BACK
        = (\<lparr>win = True, shift = True, caps = True, ctrl = True, alt = True\<rparr>, ''<BACKSPACE>'')
   \<and> snd (procedure initial_modifiers HC_ACTION WM_KEYDOWN VK_BACK) = ''<BACKSPACE>''"
proof -
  have tab: "(VK_BACK, ''<BACKSPACE>'') \<in> set literal_table"
    by (simp add: literal_table_def)
  have dn: "key_down WM_KEYDOWN"
    by (simp add: key_down_def)
  show ?thesis
    using tab dn
      literal_labels_fixed [OF tab dn,
        of "\<lparr>win = True, shift = True, caps = True, ctrl = True, alt = True\<rparr>"
           initial_modifiers]
    by simp
qed

text \<open>
  Claim C10: a key-down of the Page-Up key (\<open>VK_PRIOR\<close>, code 0x21) writes \<open><PGDN>\<close>, and
  a key-down of the Page-Down key (\<open>VK_NEXT\<close>, code 0x22) writes \<open><PGUP>\<close>: each key
  carries the label of the other.
\<close>

theorem page_labels_interchanged:
  "VK_PRIOR = 0x21 \<and> VK_NEXT = 0x22
   \<and> procedure st HC_ACTION WM_KEYDOWN VK_PRIOR = (st, ''<PGDN>'')
   \<and> procedure st HC_ACTION WM_SYSKEYDOWN VK_PRIOR = (st, ''<PGDN>'')
   \<and> procedure st HC_ACTION WM_KEYDOWN VK_NEXT = (st, ''<PGUP>'')
   \<and> procedure st HC_ACTION WM_SYSKEYDOWN VK_NEXT = (st, ''<PGUP>'')"
  by (simp add: procedure_def procedure_keydown_def windows_defs)

section \<open>Routing of events\<close>

text \<open>
  Claim C9, as stated: every non-modifier event, key-up as well as key-down, goes to the
  translator with the current flags and yields its text. The key-up branch of the procedure
  has cases for the modifier keys only: the key-up of the letter \<open>a\<close> is not a modifier
  event, and it writes nothing, where the translation of the key is \<open>a\<close>.
\<close>

theorem key_up_not_translated_counterexample:
  "(65, CHR ''a'', CHR ''A'') \<in> set character_table \<and> 65 \<notin> set modifier_keys
   \<and> key_up WM_KEYUP
   \<and> procedure initial_modifiers HC_ACTION WM_KEYUP 65 = (initial_modifiers, [])
   \<and> translate (CHR ''a'') (CHR ''A'') (win initial_modifiers) (shift initial_modifiers)
        (caps initial_modifiers) (ctrl initial_modifiers) (alt initial_modifiers) = ''a''
   \<and> snd (procedure initial_modifiers HC_ACTION WM_KEYUP 65)
        \<noteq> snd (procedure initial_modifiers HC_ACTION WM_KEYDOWN 65)"
  by (simp add: character_table_def modifier_keys_def key_up_def initial_modifiers_def
      procedure_def procedure_keydown_def procedure_keyup_def translate_def windows_defs)

text \<open>
  Claim C9, amended: an event on a modifier key writes no text, it only updates the flags.
  An event on any other key leaves the flags unchanged; if it is a key-down, the key is
  translated with the current flags (a character-table key by \<open>translate\<close>, which
  is given \<open>false\<close> in place of the caps flag for a digit key, a literal-label key to
  its fixed string, any other code to the empty text); if it is a key-up, nothing is
  translated and the text is empty.
\<close>

theorem event_routing:
  "(vk \<in> set modifier_keys \<longrightarrow> snd (procedure st HC_ACTION w vk) = [])
   \<and> (vk \<notin> set modifier_keys \<longrightarrow> fst (procedure st HC_ACTION w vk) = st)
   \<and> (vk \<notin> set modifier_keys \<and> key_up w \<longrightarrow> procedure st HC_ACTION w vk = (st, []))
   \<and> (key_down w \<and> (vk, p, s) \<in> set character_table \<longrightarrow>
        snd (procedure st HC_ACTION w vk)
          = translate p s (win st) (shift st) (caps_argument st vk) (ctrl st) (alt st))
   \<and> (key_down w \<and> (vk, label) \<in> set literal_table \<longrightarrow>
        snd (procedure st HC_ACTION w vk) = label)
   \<and> (key_down w \<and> vk \<notin> set character_keys \<and> vk \<notin> set literal_keys \<longrightarrow>
        snd (procedure st HC_ACTION w vk) = [])"
proof -
  consider (down) "key_down w" | (up) "key_up w" | (other) "\<not> key_down w" "\<not> key_up w"
    by blast
  then have modifier: "vk \<in> set modifier_keys \<longrightarrow> snd (procedure st HC_ACTION w vk) = []"
    by cases (simp_all add: procedure_down procedure_up procedure_other keydown_modifier
        keyup_silent)
  have excl: "key_up w \<Longrightarrow> \<not> key_down w"
    by (auto simp: key_up_def key_down_def windows_defs)
  have flags: "vk \<notin> set modifier_keys \<longrightarrow> fst (procedure st HC_ACTION w vk) = st"
    by (simp add: procedure_def keydown_nonmodifier_flags keyup_nonmodifier)
  have up: "vk \<notin> set modifier_keys \<and> key_up w \<longrightarrow> procedure st HC_ACTION w vk = (st, [])"
    by (simp add: procedure_up keyup_nonmodifier)
  have chr: "key_down w \<and> (vk, p, s) \<in> set character_table \<longrightarrow>
      snd (procedure st HC_ACTION w vk)
        = translate p s (win st) (shift st) (caps_argument st vk) (ctrl st) (alt st)"
    using procedure_character [of vk p s w st] by simp
  have lit: "key_down w \<and> (vk, label) \<in> set literal_table \<longrightarrow>
      snd (procedure st HC_ACTION w vk) = label"
    using keydown_literal [of vk label st] by (simp add: procedure_down)
  have rest: "key_down w \<and> vk \<notin> set character_keys \<and> vk \<notin> set literal_keys \<longrightarrow>
      snd (procedure st HC_ACTION w vk) = []"
  proof (cases "vk \<in> set modifier_keys")
    case True
    then show ?thesis by (simp add: procedure_down keydown_modifier)
  next
    case False
    then show ?thesis by (simp add: procedure_down keydown_unmapped)
  qed
  show ?thesis
    using modifier flags up chr lit rest by blast
qed

theorem event_routing_witness:
  "VK_LSHIFT \<in> set modifier_keys
   \<and> snd (procedure initial_modifiers HC_ACTION WM_KEYDOWN VK_LSHIFT) = []
   \<and> 65 \<notin> set modifier_keys \<and> key_up WM_KEYUP \<and> key_down WM_KEYDOWN
   \<and> (65, CHR ''a'', CHR ''A'') \<in> set character_table
   \<and> procedure (initial_modifiers\<lparr>shift := True\<rparr>) HC_ACTION WM_KEYUP 65
        = (initial_modifiers\<lparr>shift := True\<rparr>, [])
   \<and> procedure (initial_modifiers\<lparr>shift := True\<rparr>) HC_ACTION WM_KEYDOWN 65
        = (initial_modifiers\<lparr>shift := True\<rparr>, ''A'')
   \<and> (VK_TAB, ''<TAB>'') \<in> set literal_table
   \<and> snd (procedure initial_modifiers HC_ACTION WM_KEYDOWN VK_TAB) = ''<TAB>''"
proof -
  have m: "VK_LSHIFT \<in> set modifier_keys"
    by (simp add: modifier_keys_def)
  have n: "65 \<notin> set modifier_keys"
    by (simp add: modifier_keys_def windows_defs)
  have u: "key_up WM_KEYUP"
    by (simp add: key_up_def)
  have d: "key_down WM_KEYDOWN"
    by (simp add: key_down_def)
  have c: "(65, CHR ''a'', CHR ''A'') \<in> set character_table"
    by (simp add: character_table_def)
  have l: "(VK_TAB, ''<TAB>'') \<in> set literal_table"
    by (simp add: literal_table_def)
  have a: "caps_argument (initial_modifiers\<lparr>shift := True\<rparr>) 65 = False"
    by (simp add: caps_argument_def initial_modifiers_def)
  have t: "translate (CHR ''a'') (CHR ''A'') False True False False False = ''A''"
    by (simp add: translate_def)
  have r1: "snd (procedure initial_modifiers HC_ACTION WM_KEYDOWN VK_LSHIFT) = []"
    using m event_routing [of VK_LSHIFT initial_modifiers WM_KEYDOWN] by blast
  have r2: "procedure (initial_modifiers\<lparr>shift := True\<rparr>) HC_ACTION WM_KEYUP 65
      = (initial_modifiers\<lparr>shift := True\<rparr>, [])"
    using n u event_routing [of 65 "initial_modifiers\<lparr>shift := True\<rparr>" WM_KEYUP] by blast
  have r3: "procedure (initial_modifiers\<lparr>shift := True\<rparr>) HC_ACTION WM_KEYDOWN 65
      = (initial_modifiers\<lparr>shift := True\<rparr>, ''A'')"
    using n d c a t
      event_routing [of 65 "initial_modifiers\<lparr>shift := True\<rparr>" WM_KEYDOWN "CHR ''a''" "CHR ''A''"]
    by (simp add: prod_eq_iff initial_modifiers_def)
  have r4: "snd (procedure initial_modifiers HC_ACTION WM_KEYDOWN VK_TAB) = ''<TAB>''"
    using d l event_routing [of VK_TAB initial_modifiers WM_KEYDOWN _ _ "''<TAB>''"] by blast
  show ?thesis
    using m n u d c l r1 r2 r3 r4 by simp
qed

end
